theory Spec2Isabelle
  imports Complex_Main "HOL-Library.Word"
begin

section \<open>The EXIF GPS decoder of \<^verbatim>\<open>open_in_gimp.py\<close>\<close>

text \<open>
  The development embeds the pure-Python EXIF reader of the add-on
  (\<^verbatim>\<open>read_jpeg_exif_gps\<close> with its closures, and \<^verbatim>\<open>get_gps_coordinates\<close>).
  Conventions of the embedding:
  \<^item> a Python \<^verbatim>\<open>bytes\<close> object is a list of 8-bit words;
  \<^item> the integers that \<^verbatim>\<open>struct.unpack\<close> delivers are unbounded and non-negative: \<open>nat\<close>;
  \<^item> the open file is a record of its content, its cursor, the log of the reads and
    seeks done on it, and the number of bytes that the machine can allocate for one read;
    every file operation returns the updated record;
  \<^item> every place where the Python raises is a value \<open>Inl e\<close>; a \<^verbatim>\<open>return None\<close> in the
    middle of the function is the value \<open>Inr None\<close>;
  \<^item> Python floats are modelled by \<open>real\<close>: the quotients and sums are exact, the
    rounding of IEEE doubles is not modelled.
\<close>

subsection \<open>Bytes, slices and \<^verbatim>\<open>struct.unpack\<close>\<close>

type_synonym byte = "8 word"
type_synonym bytes = "byte list"

text \<open>The exceptions that the decoder can raise: \<^verbatim>\<open>struct.error\<close> (a buffer of the wrong
  size), \<^verbatim>\<open>OSError\<close> (the file cannot be opened, a seek before the start of the file),
  \<^verbatim>\<open>ZeroDivisionError\<close> and \<^verbatim>\<open>MemoryError\<close> (the buffer of a read cannot be allocated).
  All four derive from \<^verbatim>\<open>Exception\<close>.\<close>

datatype error = StructError | OSError | ZeroDivisionError | MemoryError

datatype endian = Little | Big

text \<open>\<^verbatim>\<open>data[a:b]\<close> for \<open>0 \<le> a \<le> b\<close>: Python clamps a slice to the object.\<close>

definition slice :: "'a list \<Rightarrow> nat \<Rightarrow> nat \<Rightarrow> 'a list" where
  "slice xs a b = take (b - a) (drop a xs)"

fun le_nat :: "bytes \<Rightarrow> nat" where
  "le_nat [] = 0"
| "le_nat (b # bs) = unat b + 256 * le_nat bs"

definition bytes_nat :: "endian \<Rightarrow> bytes \<Rightarrow> nat" where
  "bytes_nat e bs = (case e of Little \<Rightarrow> le_nat bs | Big \<Rightarrow> le_nat (rev bs))"

text \<open>\<^verbatim>\<open>struct.unpack(endian + 'H', bs)[0]\<close> and \<^verbatim>\<open>struct.unpack(endian + 'I', bs)[0]\<close>:
  the buffer must hold exactly 2 (4) bytes, otherwise \<^verbatim>\<open>struct.error\<close> is raised.\<close>

definition unpack_H :: "endian \<Rightarrow> bytes \<Rightarrow> error + nat" where
  "unpack_H e bs = (if length bs = 2 then Inr (bytes_nat e bs) else Inl StructError)"

definition unpack_I :: "endian \<Rightarrow> bytes \<Rightarrow> error + nat" where
  "unpack_I e bs = (if length bs = 4 then Inr (bytes_nat e bs) else Inl StructError)"

subsection \<open>The open file\<close>

datatype io_op = OpRead nat | OpSeek nat | OpSeekCur int

text \<open>The field \<open>avail\<close> is a property of the machine, not of the file: the largest
  number of bytes that the allocator gives to one \<^verbatim>\<open>read\<close>.\<close>

record file_obj =
  content :: bytes
  pos :: nat
  trace :: "io_op list"
  avail :: nat

text \<open>\<^verbatim>\<open>open(filepath, 'rb')\<close> on a file that exists, on a machine that can allocate
  \<open>mem\<close> bytes.\<close>

definition open_file :: "nat \<Rightarrow> bytes \<Rightarrow> file_obj" where
  "open_file mem bs = \<lparr>content = bs, pos = 0, trace = [], avail = mem\<rparr>"

text \<open>\<^verbatim>\<open>f.read(n)\<close> on the buffered reader allocates the \<^verbatim>\<open>bytes\<close> object of \<open>n\<close> bytes
  before it reads. A request of at most 8 bytes is always served: 2, 4, 6 and 8 are the
  sizes that the program passes as literals, and the allocation of such a small object is
  taken to succeed, as it is for every other object that the program creates. A larger
  request is served when the machine can allocate that much. (The sizes of this program
  are at most \<open>8 * (2\<^sup>3\<^sup>2 - 1)\<close>; they fit the index type of a 64-bit interpreter, which is
  the one modelled.)\<close>

definition served :: "nat \<Rightarrow> file_obj \<Rightarrow> bool" where
  "served n f \<longleftrightarrow> n \<le> 8 \<or> n \<le> avail f"

text \<open>\<^verbatim>\<open>f.read(n)\<close>: when the buffer cannot be allocated, \<^verbatim>\<open>MemoryError\<close> is raised and the
  cursor stays where it is. Otherwise the result is the bytes from the cursor on, at most
  \<open>n\<close> of them and fewer at the end of the file, and the cursor moves past what was read.
  The call is logged in both cases.\<close>

definition f_read :: "nat \<Rightarrow> file_obj \<Rightarrow> (error + bytes) \<times> file_obj" where
  "f_read n f =
     (if served n f then
        (let data = take n (drop (pos f) (content f))
         in (Inr data, f\<lparr>pos := pos f + length data, trace := trace f @ [OpRead n]\<rparr>))
      else (Inl MemoryError, f\<lparr>trace := trace f @ [OpRead n]\<rparr>))"

text \<open>\<^verbatim>\<open>f.seek(p)\<close> with \<open>p \<ge> 0\<close>: the cursor may be put past the end of the file.\<close>

definition f_seek :: "nat \<Rightarrow> file_obj \<Rightarrow> file_obj" where
  "f_seek p f = f\<lparr>pos := p, trace := trace f @ [OpSeek p]\<rparr>"

text \<open>\<^verbatim>\<open>f.seek(d, 1)\<close>: relative to the cursor; a target before the start of the file
  raises \<^verbatim>\<open>OSError\<close>.\<close>

definition f_seek_cur :: "int \<Rightarrow> file_obj \<Rightarrow> (error + unit) \<times> file_obj" where
  "f_seek_cur d f =
     (if int (pos f) + d < 0 then (Inl OSError, f\<lparr>trace := trace f @ [OpSeekCur d]\<rparr>)
      else (Inr (), f\<lparr>pos := nat (int (pos f) + d), trace := trace f @ [OpSeekCur d]\<rparr>))"

definition f_tell :: "file_obj \<Rightarrow> nat" where
  "f_tell f = pos f"

subsection \<open>The closures of \<^verbatim>\<open>read_jpeg_exif_gps\<close>\<close>

text \<open>An IFD entry as the dictionary stores it: \<^verbatim>\<open>(type_id, count, value_offset)\<close>.\<close>

type_synonym ifd_entry = "nat \<times> nat \<times> bytes"
type_synonym ifd = "nat \<rightharpoonup> ifd_entry"

text \<open>The loop \<^verbatim>\<open>for _ in range(num_entries)\<close> of \<^verbatim>\<open>read_ifd_entries\<close>. The three
  \<^verbatim>\<open>struct.unpack\<close> calls raise on a short read; the 4-byte value field is stored as it
  was read, also when the file ended inside it. An exception of a read leaves the
  function at once, here and in all the functions below.\<close>

fun read_entries :: "endian \<Rightarrow> nat \<Rightarrow> ifd \<Rightarrow> file_obj \<Rightarrow> (error + ifd) \<times> file_obj" where
  "read_entries e 0 entries f = (Inr entries, f)"
| "read_entries e (Suc n) entries f =
     (case f_read 2 f of (Inl x, f1) \<Rightarrow> (Inl x, f1) | (Inr tb, f1) \<Rightarrow>
      case unpack_H e tb of Inl x \<Rightarrow> (Inl x, f1) | Inr tag \<Rightarrow>
      case f_read 2 f1 of (Inl x, f2) \<Rightarrow> (Inl x, f2) | (Inr yb, f2) \<Rightarrow>
      case unpack_H e yb of Inl x \<Rightarrow> (Inl x, f2) | Inr type_id \<Rightarrow>
      case f_read 4 f2 of (Inl x, f3) \<Rightarrow> (Inl x, f3) | (Inr cb, f3) \<Rightarrow>
      case unpack_I e cb of Inl x \<Rightarrow> (Inl x, f3) | Inr count \<Rightarrow>
      case f_read 4 f3 of (Inl x, f4) \<Rightarrow> (Inl x, f4) | (Inr value_offset, f4) \<Rightarrow>
        read_entries e n (entries(tag \<mapsto> (type_id, count, value_offset))) f4)"

definition read_ifd_entries :: "endian \<Rightarrow> nat \<Rightarrow> nat \<Rightarrow> file_obj \<Rightarrow> (error + ifd) \<times> file_obj" where
  "read_ifd_entries e tiff_start offset f =
     (case f_read 2 (f_seek (tiff_start + offset) f) of
        (Inl x, f1) \<Rightarrow> (Inl x, f1)
      | (Inr nb, f1) \<Rightarrow>
         (case unpack_H e nb of Inl x \<Rightarrow> (Inl x, f1) | Inr num_entries \<Rightarrow>
            read_entries e num_entries Map.empty f1))"

text \<open>The dictionary \<^verbatim>\<open>type_sizes\<close> of \<^verbatim>\<open>get_value\<close>, in the order it is written,
  and \<^verbatim>\<open>type_sizes.get(type_id, 1)\<close>.\<close>

definition type_sizes :: "(nat \<times> nat) list" where
  "type_sizes = [(1, 1), (2, 1), (3, 2), (4, 4), (5, 8), (7, 1), (9, 4), (10, 8)]"

definition type_size :: "nat \<Rightarrow> nat" where
  "type_size type_id = (case map_of type_sizes type_id of Some w \<Rightarrow> w | None \<Rightarrow> 1)"

definition value_size :: "nat \<Rightarrow> nat \<Rightarrow> nat" where
  "value_size type_id count = type_size type_id * count"

definition get_value ::
  "endian \<Rightarrow> nat \<Rightarrow> nat \<Rightarrow> nat \<Rightarrow> bytes \<Rightarrow> file_obj \<Rightarrow> (error + bytes) \<times> file_obj" where
  "get_value e tiff_start type_id count value_offset f =
     (let size = value_size type_id count in
      if size \<le> 4 then (Inr value_offset, f)
      else
        (case unpack_I e value_offset of Inl x \<Rightarrow> (Inl x, f) | Inr offset \<Rightarrow>
           (let p = f_tell f;
                f1 = f_seek (tiff_start + offset) f
            in case f_read size f1 of
                 (Inl x, f2) \<Rightarrow> (Inl x, f2)
               | (Inr data, f2) \<Rightarrow> (Inr data, f_seek p f2))))"

text \<open>\<^verbatim>\<open>num / den\<close> on Python integers raises \<^verbatim>\<open>ZeroDivisionError\<close> for \<open>den = 0\<close>.\<close>

definition py_truediv :: "nat \<Rightarrow> nat \<Rightarrow> error + real" where
  "py_truediv num den = (if den = 0 then Inl ZeroDivisionError else Inr (real num / real den))"

text \<open>\<^verbatim>\<open>read_rational(data, offset)\<close>. The argument is always a \<^verbatim>\<open>bytes\<close> object here,
  so the \<^verbatim>\<open>isinstance\<close> test holds and its \<^verbatim>\<open>else\<close> branch is not modelled.\<close>

definition read_rational :: "endian \<Rightarrow> bytes \<Rightarrow> nat \<Rightarrow> error + real" where
  "read_rational e data offset =
     (case unpack_I e (slice data offset (offset + 4)) of Inl x \<Rightarrow> Inl x | Inr num \<Rightarrow>
      case unpack_I e (slice data (offset + 4) (offset + 8)) of Inl x \<Rightarrow> Inl x | Inr den \<Rightarrow>
        (if den \<noteq> 0 then py_truediv num den else Inr 0))"

definition read_gps_coord :: "endian \<Rightarrow> bytes \<Rightarrow> error + real" where
  "read_gps_coord e data =
     (case read_rational e data 0 of Inl x \<Rightarrow> Inl x | Inr degrees \<Rightarrow>
      case read_rational e data 8 of Inl x \<Rightarrow> Inl x | Inr minutes \<Rightarrow>
      case read_rational e data 16 of Inl x \<Rightarrow> Inl x | Inr seconds \<Rightarrow>
        Inr (degrees + minutes / 60 + seconds / 3600))"

subsection \<open>The marker loop\<close>

text \<open>One pass through the body of \<^verbatim>\<open>while True\<close>: the loop is left by \<^verbatim>\<open>break\<close> at the
  APP1 marker, by \<^verbatim>\<open>return None\<close>, by an exception, or it goes round again.\<close>

datatype scan_result = Break | Return_None | Continue

definition scan_step :: "file_obj \<Rightarrow> (error + scan_result) \<times> file_obj" where
  "scan_step f =
     (case f_read 2 f of (Inl x, f1) \<Rightarrow> (Inl x, f1) | (Inr marker, f1) \<Rightarrow>
      if length marker < 2 then (Inr Return_None, f1)
      else if marker = [0xFF, 0xE1] then (Inr Break, f1)
      else if slice marker 0 1 = [0xFF] then
        (case f_read 2 f1 of (Inl x, f2) \<Rightarrow> (Inl x, f2) | (Inr lb, f2) \<Rightarrow>
         case unpack_H Big lb of Inl x \<Rightarrow> (Inl x, f2) | Inr len \<Rightarrow>
           (case f_seek_cur (int len - 2) f2 of
              (Inl x, f3) \<Rightarrow> (Inl x, f3)
            | (Inr u, f3) \<Rightarrow> (Inr Continue, f3)))
      else (Inr Return_None, f1))"

lemma scan_step_Continue:
  assumes "fst (scan_step f) = Inr Continue"
  shows "content (snd (scan_step f)) = content f"
    and "pos f < length (content f)"
    and "pos f < pos (snd (scan_step f))"
  using assms
  by (auto simp: scan_step_def f_read_def served_def f_seek_cur_def unpack_H_def Let_def
      split: if_splits sum.splits prod.splits)

text \<open>The loop itself. \<open>True\<close> stands for \<^verbatim>\<open>break\<close>, \<open>False\<close> for \<^verbatim>\<open>return None\<close>.\<close>

function scan_app1 :: "file_obj \<Rightarrow> (error + bool) \<times> file_obj" where
  "scan_app1 f =
     (let r = scan_step f in
      if fst r = Inr Continue then scan_app1 (snd r)
      else (case fst r of
              Inl x \<Rightarrow> (Inl x, snd r)
            | Inr Break \<Rightarrow> (Inr True, snd r)
            | Inr _ \<Rightarrow> (Inr False, snd r)))"
  by pat_completeness auto
termination scan_app1
proof (relation "measure (\<lambda>f. length (content f) - pos f)")
  show "wf (measure (\<lambda>f. length (content f) - pos f))" by simp
next
  fix f r
  assume "r = scan_step f" and "fst r = Inr Continue"
  then show "(snd r, f) \<in> measure (\<lambda>f. length (content f) - pos f)"
    using scan_step_Continue [of f] by simp
qed

declare scan_app1.simps [simp del]

subsection \<open>The stages of \<^verbatim>\<open>read_jpeg_exif_gps\<close>\<close>

text \<open>From the magic bytes to the offset of IFD0 (the statements before the closures): the
  result is the byte order, \<^verbatim>\<open>tiff_start\<close> and \<^verbatim>\<open>ifd_offset\<close>.\<close>

definition tiff_header :: "file_obj \<Rightarrow> (error + (endian \<times> nat \<times> nat) option) \<times> file_obj" where
  "tiff_header f =
     (case f_read 2 f of (Inl x, f1) \<Rightarrow> (Inl x, f1) | (Inr magic, f1) \<Rightarrow>
      if magic \<noteq> [0xFF, 0xD8] then (Inr None, f1)
      else
        (case scan_app1 f1 of
           (Inl x, f2) \<Rightarrow> (Inl x, f2)
         | (Inr False, f2) \<Rightarrow> (Inr None, f2)
         | (Inr True, f2) \<Rightarrow>
            (case f_read 2 f2 of (Inl x, f3) \<Rightarrow> (Inl x, f3) | (Inr lb, f3) \<Rightarrow>
             case unpack_H Big lb of Inl x \<Rightarrow> (Inl x, f3) | Inr len \<Rightarrow>
             case f_read 6 f3 of (Inl x, f4) \<Rightarrow> (Inl x, f4) | (Inr exif_header, f4) \<Rightarrow>
             if exif_header \<noteq> [0x45, 0x78, 0x69, 0x66, 0x00, 0x00] then (Inr None, f4)
             else
               (let tiff_start = f_tell f4 in
                case f_read 8 f4 of (Inl x, f5) \<Rightarrow> (Inl x, f5) | (Inr th, f5) \<Rightarrow>
                case (if slice th 0 2 = [0x49, 0x49] then Some Little
                      else if slice th 0 2 = [0x4D, 0x4D] then Some Big
                      else None) of
                  None \<Rightarrow> (Inr None, f5)
                | Some e \<Rightarrow>
                   (case unpack_I e (slice th 4 8) of
                      Inl x \<Rightarrow> (Inl x, f5)
                    | Inr ifd_offset \<Rightarrow> (Inr (Some (e, tiff_start, ifd_offset)), f5))))))"

text \<open>The reading of a hemisphere reference, written twice in the source (tag \<open>0x0001\<close>
  with \<^verbatim>\<open>(b'S', b's')\<close> and tag \<open>0x0003\<close> with \<^verbatim>\<open>(b'W', b'w')\<close>):
  \<^verbatim>\<open>if tag in gps_ifd: ref = get_value(*gps_ifd[tag]); if ref[0:1] in letters: v = -v\<close>.\<close>

definition apply_ref ::
  "endian \<Rightarrow> nat \<Rightarrow> ifd \<Rightarrow> nat \<Rightarrow> bytes list \<Rightarrow> real \<Rightarrow> file_obj \<Rightarrow> (error + real) \<times> file_obj" where
  "apply_ref e tiff_start gps_ifd tag letters v f =
     (case gps_ifd tag of
        None \<Rightarrow> (Inr v, f)
      | Some (type_id, count, value_offset) \<Rightarrow>
         (case get_value e tiff_start type_id count value_offset f of
            (Inl x, f1) \<Rightarrow> (Inl x, f1)
          | (Inr ref, f1) \<Rightarrow>
             (if slice ref 0 1 \<in> set letters then (Inr (- v), f1) else (Inr v, f1))))"

text \<open>From the parsed GPS IFD to the pair of coordinates.\<close>

definition gps_coords ::
  "endian \<Rightarrow> nat \<Rightarrow> ifd \<Rightarrow> file_obj \<Rightarrow> (error + (real \<times> real) option) \<times> file_obj" where
  "gps_coords e tiff_start gps_ifd f =
     (case gps_ifd 0x0002 of None \<Rightarrow> (Inr None, f) | Some (t2, c2, v2) \<Rightarrow>
      case gps_ifd 0x0004 of None \<Rightarrow> (Inr None, f) | Some (t4, c4, v4) \<Rightarrow>
      case get_value e tiff_start t2 c2 v2 f of (Inl x, f1) \<Rightarrow> (Inl x, f1) | (Inr lat_data, f1) \<Rightarrow>
      case read_gps_coord e lat_data of Inl x \<Rightarrow> (Inl x, f1) | Inr latitude \<Rightarrow>
      case apply_ref e tiff_start gps_ifd 0x0001 [[0x53], [0x73]] latitude f1 of
        (Inl x, f2) \<Rightarrow> (Inl x, f2) | (Inr latitude', f2) \<Rightarrow>
      case get_value e tiff_start t4 c4 v4 f2 of (Inl x, f3) \<Rightarrow> (Inl x, f3) | (Inr lon_data, f3) \<Rightarrow>
      case read_gps_coord e lon_data of Inl x \<Rightarrow> (Inl x, f3) | Inr longitude \<Rightarrow>
      case apply_ref e tiff_start gps_ifd 0x0003 [[0x57], [0x77]] longitude f3 of
        (Inl x, f4) \<Rightarrow> (Inl x, f4) | (Inr longitude', f4) \<Rightarrow>
        (Inr (Some (latitude', longitude')), f4))"

text \<open>From the parsed IFD0 to the coordinates: the GPS pointer, then the GPS IFD.\<close>

definition gps_from_ifd0 ::
  "endian \<Rightarrow> nat \<Rightarrow> ifd \<Rightarrow> file_obj \<Rightarrow> (error + (real \<times> real) option) \<times> file_obj" where
  "gps_from_ifd0 e tiff_start ifd0 f =
     (case ifd0 0x8825 of None \<Rightarrow> (Inr None, f) | Some (type_id, count, value_offset) \<Rightarrow>
      case unpack_I e value_offset of Inl x \<Rightarrow> (Inl x, f) | Inr gps_offset \<Rightarrow>
      case read_ifd_entries e tiff_start gps_offset f of
        (Inl x, f1) \<Rightarrow> (Inl x, f1)
      | (Inr gps_ifd, f1) \<Rightarrow> gps_coords e tiff_start gps_ifd f1)"

text \<open>The body of the \<^verbatim>\<open>with\<close> statement.\<close>

definition read_jpeg_exif_gps_body ::
  "file_obj \<Rightarrow> (error + (real \<times> real) option) \<times> file_obj" where
  "read_jpeg_exif_gps_body f =
     (case tiff_header f of
        (Inl x, f1) \<Rightarrow> (Inl x, f1)
      | (Inr None, f1) \<Rightarrow> (Inr None, f1)
      | (Inr (Some (e, tiff_start, ifd_offset)), f1) \<Rightarrow>
         (case read_ifd_entries e tiff_start ifd_offset f1 of
            (Inl x, f2) \<Rightarrow> (Inl x, f2)
          | (Inr ifd0, f2) \<Rightarrow> gps_from_ifd0 e tiff_start ifd0 f2))"

subsection \<open>The file system and the two entry points\<close>

text \<open>The file system maps a path to the content of the file, or to \<open>None\<close> where
  \<^verbatim>\<open>open\<close> raises \<^verbatim>\<open>OSError\<close>. What a call does to it is logged: the paths it opens and
  the operations on the opened file. The argument \<open>mem\<close> of the two entry points is the
  number of bytes that the machine can allocate for one read.\<close>

datatype fs_event = EvOpen string | EvFile io_op

text \<open>\<^verbatim>\<open>try: ... except Exception: return None\<close> around the body: every exception of
  the body, and the failure of \<^verbatim>\<open>open\<close>, becomes \<open>None\<close>. The handler prints the exception
  before it returns; standard output is not modelled, and that \<^verbatim>\<open>print\<close> is taken to
  succeed. The path is a Python \<^verbatim>\<open>str\<close>.\<close>

definition read_jpeg_exif_gps ::
  "nat \<Rightarrow> (string \<Rightarrow> bytes option) \<Rightarrow> string \<Rightarrow> (real \<times> real) option \<times> fs_event list" where
  "read_jpeg_exif_gps mem fs filepath =
     (case fs filepath of
        None \<Rightarrow> (None, [EvOpen filepath])
      | Some bs \<Rightarrow>
         (case read_jpeg_exif_gps_body (open_file mem bs) of
            (Inl x, f) \<Rightarrow> (None, EvOpen filepath # map EvFile (trace f))
          | (Inr r, f) \<Rightarrow> (r, EvOpen filepath # map EvFile (trace f))))"

text \<open>\<^verbatim>\<open>os.path.splitext\<close> is \<^verbatim>\<open>genericpath._splitext(p, sep, altsep, extsep)\<close> of the
  standard library, with \<^verbatim>\<open>('/', None, '.')\<close> on POSIX systems and \<^verbatim>\<open>('\\', '/', '.')\<close>
  on Windows. \<^verbatim>\<open>p.rfind(c)\<close> is the last index of \<open>c\<close>, or \<open>-1\<close>.\<close>

datatype os_name = Posix | Nt

definition rfind :: "string \<Rightarrow> char \<Rightarrow> int" where
  "rfind p c =
     (if c \<in> set p then int (length p) - 1 - int (length (takeWhile (\<lambda>x. x \<noteq> c) (rev p)))
      else - 1)"

text \<open>The loop that skips the leading dots of the file name; \<open>Some\<close> is its
  \<^verbatim>\<open>return p[:dotIndex], p[dotIndex:]\<close>, \<open>None\<close> its normal end.\<close>

function splitext_loop :: "string \<Rightarrow> char \<Rightarrow> nat \<Rightarrow> nat \<Rightarrow> (string \<times> string) option" where
  "splitext_loop p extsep filenameIndex dotIndex =
     (if filenameIndex < dotIndex then
        (if slice p filenameIndex (filenameIndex + 1) \<noteq> [extsep]
         then Some (take dotIndex p, drop dotIndex p)
         else splitext_loop p extsep (filenameIndex + 1) dotIndex)
      else None)"
  by pat_completeness auto
termination splitext_loop
  by (relation "measure (\<lambda>(p, extsep, filenameIndex, dotIndex). dotIndex - filenameIndex)") auto

declare splitext_loop.simps [simp del]

definition splitext_generic :: "string \<Rightarrow> char \<Rightarrow> char option \<Rightarrow> char \<Rightarrow> string \<times> string" where
  "splitext_generic p sep altsep extsep =
     (let sepIndex = (case altsep of None \<Rightarrow> rfind p sep
                      | Some a \<Rightarrow> max (rfind p sep) (rfind p a));
          dotIndex = rfind p extsep
      in if dotIndex > sepIndex then
           (case splitext_loop p extsep (nat (sepIndex + 1)) (nat dotIndex) of
              Some r \<Rightarrow> r
            | None \<Rightarrow> (p, []))
         else (p, []))"

definition splitext :: "os_name \<Rightarrow> string \<Rightarrow> string \<times> string" where
  "splitext os p =
     (case os of
        Posix \<Rightarrow> splitext_generic p CHR ''/'' None CHR ''.''
      | Nt \<Rightarrow> splitext_generic p (CHR 0x5C) (Some CHR ''/'') CHR ''.'')"

text \<open>\<^verbatim>\<open>str.lower()\<close> on the ASCII letters. (On other letters Python's \<^verbatim>\<open>lower\<close> never
  yields an ASCII letter of \<^verbatim>\<open>.jpg\<close> or \<^verbatim>\<open>.jpeg\<close>, so the test below is not affected.)\<close>

definition lower_char :: "char \<Rightarrow> char" where
  "lower_char c =
     (case map_of (zip ''ABCDEFGHIJKLMNOPQRSTUVWXYZ'' ''abcdefghijklmnopqrstuvwxyz'') c of
        Some l \<Rightarrow> l
      | None \<Rightarrow> c)"

definition lower :: "string \<Rightarrow> string" where
  "lower s = map lower_char s"

definition get_gps_coordinates ::
  "os_name \<Rightarrow> nat \<Rightarrow> (string \<Rightarrow> bytes option) \<Rightarrow> string \<Rightarrow>
     (real \<times> real) option \<times> fs_event list" where
  "get_gps_coordinates os mem fs filepath =
     (let ext = lower (snd (splitext os filepath)) in
      if ext \<in> set [''.jpg'', ''.jpeg''] then read_jpeg_exif_gps mem fs filepath
      else (None, []))"




text \<open>A file system that holds one file, for the concrete runs below.\<close>

definition one_file :: "string \<Rightarrow> bytes \<Rightarrow> string \<Rightarrow> bytes option" where
  "one_file path bs = (\<lambda>p. if p = path then Some bs else None)"

text \<open>A 24-byte coordinate value whose minutes have denominator 0.\<close>

definition coord_ex :: bytes where
  "coord_ex = [0, 0, 0, 40, 0, 0, 0, 1,  0, 0, 0, 26, 0, 0, 0, 0,  0, 0, 0, 46, 0, 0, 0, 2]"









text \<open>Three short files: EXIF with an empty IFD0; EXIF whose GPS IFD has a latitude and no
  longitude; a file that ends inside the length field of its first segment.\<close>

definition file_no_pointer :: bytes where
  "file_no_pointer =
     [0xFF, 0xD8, 0xFF, 0xE1, 0x00, 0x14, 0x45, 0x78, 0x69, 0x66, 0x00, 0x00,
      0x4D, 0x4D, 0x00, 0x2A, 0x00, 0x00, 0x00, 0x08,
      0x00, 0x00]"

definition file_no_longitude :: bytes where
  "file_no_longitude =
     [0xFF, 0xD8, 0xFF, 0xE1, 0x00, 0x30, 0x45, 0x78, 0x69, 0x66, 0x00, 0x00,
      0x4D, 0x4D, 0x00, 0x2A, 0x00, 0x00, 0x00, 0x08,
      0x00, 0x01,
      0x88, 0x25, 0x00, 0x04, 0x00, 0x00, 0x00, 0x01, 0x00, 0x00, 0x00, 0x1A,
      0x00, 0x00, 0x00, 0x00,
      0x00, 0x01,
      0x00, 0x02, 0x00, 0x05, 0x00, 0x00, 0x00, 0x03, 0x00, 0x00, 0x00, 0x00]"


text \<open>A file of 68 bytes whose GPS IFD holds a latitude at offset 1000 and a longitude at
  offset 2000 of the TIFF block, both far past the end of the file; and the state of the
  open file when the decoder has parsed that GPS IFD, on a machine that allocates up to
  4096 bytes.\<close>

definition file_past_end :: bytes where
  "file_past_end =
     [0xFF, 0xD8, 0xFF, 0xE1, 0x00, 0x40, 0x45, 0x78, 0x69, 0x66, 0x00, 0x00,
      0x4D, 0x4D, 0x00, 0x2A, 0x00, 0x00, 0x00, 0x08,
      0x00, 0x01,
      0x88, 0x25, 0x00, 0x04, 0x00, 0x00, 0x00, 0x01, 0x00, 0x00, 0x00, 0x1A,
      0x00, 0x00, 0x00, 0x00,
      0x00, 0x02,
      0x00, 0x02, 0x00, 0x05, 0x00, 0x00, 0x00, 0x03, 0x00, 0x00, 0x03, 0xE8,
      0x00, 0x04, 0x00, 0x05, 0x00, 0x00, 0x00, 0x03, 0x00, 0x00, 0x07, 0xD0,
      0x00, 0x00, 0x00, 0x00]"

definition past_end_state :: file_obj where
  "past_end_state =
     \<lparr>content = file_past_end, pos = 64,
       trace = [OpRead 2, OpRead 2, OpRead 2, OpRead 6, OpRead 8, OpSeek 20, OpRead 2,
                OpRead 2, OpRead 2, OpRead 4, OpRead 4, OpSeek 38, OpRead 2,
                OpRead 2, OpRead 2, OpRead 4, OpRead 4, OpRead 2, OpRead 2, OpRead 4, OpRead 4],
       avail = 4096\<rparr>"

section \<open>Properties\<close>

subsection \<open>The value resolver\<close>

lemma type_size_unknown:
  "type_id \<notin> {1, 2, 3, 4, 5, 7, 9, 10} \<Longrightarrow> type_size type_id = 1"
  by (simp add: type_size_def type_sizes_def)

lemma get_value_deref:
  assumes "4 < value_size type_id count" and "unpack_I e value_offset = Inr offset"
    and "served (value_size type_id count) f"
  shows "get_value e tiff_start type_id count value_offset f =
     (Inr (take (value_size type_id count) (drop (tiff_start + offset) (content f))),
      f\<lparr>trace := trace f @ [OpSeek (tiff_start + offset), OpRead (value_size type_id count),
                               OpSeek (pos f)]\<rparr>)"
  using assms
  by (simp add: get_value_def f_seek_def f_read_def served_def f_tell_def Let_def)

lemma get_value_no_memory:
  assumes "4 < value_size type_id count" and "unpack_I e value_offset = Inr offset"
    and "\<not> served (value_size type_id count) f"
  shows "get_value e tiff_start type_id count value_offset f =
     (Inl MemoryError,
      f\<lparr>pos := tiff_start + offset,
        trace := trace f @ [OpSeek (tiff_start + offset), OpRead (value_size type_id count)]\<rparr>)"
  using assms
  by (simp add: get_value_def f_seek_def f_read_def served_def f_tell_def Let_def)

lemma get_value_inline:
  "value_size type_id count \<le> 4 \<Longrightarrow>
   get_value e tiff_start type_id count value_offset f = (Inr value_offset, f)"
  by (simp add: get_value_def)

lemma get_value_raise:
  assumes "4 < value_size type_id count" and "unpack_I e value_offset = Inl x"
  shows "get_value e tiff_start type_id count value_offset f = (Inl x, f)"
  using assms by (simp add: get_value_def)

lemma unpack_I_cases:
  "(length bs = 4 \<and> unpack_I e bs = Inr (bytes_nat e bs)) \<or>
   (length bs \<noteq> 4 \<and> unpack_I e bs = Inl StructError)"
  by (simp add: unpack_I_def)

text \<open>
  \<^bold>\<open>C10.\<close> For an entry whose \<^verbatim>\<open>type_id\<close> is not a key of \<^verbatim>\<open>type_sizes\<close> the width
  defaults to one byte, so the size is \<open>1 * count\<close> and nothing fails; with \<open>count \<le> 4\<close> the
  resolver returns the raw value field of the entry and leaves the file untouched.
\<close>

theorem get_value_unknown_type:
  "type_id \<notin> {1, 2, 3, 4, 5, 7, 9, 10} \<Longrightarrow>
     value_size type_id count = 1 * count \<and>
     (count \<le> 4 \<longrightarrow> get_value e tiff_start type_id count value_offset f = (Inr value_offset, f))"
  by (simp add: value_size_def get_value_def type_size_unknown)

theorem get_value_unknown_type_witness:
  "(6::nat) \<notin> {1, 2, 3, 4, 5, 7, 9, 10} \<and> value_size 6 3 = 1 * 3 \<and> (3::nat) \<le> 4 \<and>
   get_value Big 0 6 3 [1, 2, 3, 4] (open_file 0 [9, 9]) =
     (Inr [1, 2, 3, 4], open_file 0 [9, 9])"
  using get_value_unknown_type [of 6 3 Big 0 "[1, 2, 3, 4]" "open_file 0 [9, 9]"] by simp

text \<open>
  \<^bold>\<open>C9.\<close> For an entry of more than 4 bytes, a call of the resolver that returns has read
  what \<^verbatim>\<open>f.read(size)\<close> delivers at \<^verbatim>\<open>tiff_start + offset\<close>, by a seek there, one read and
  a seek back: the cursor is where it was before the call, and the content is unchanged.
\<close>

theorem get_value_restores_cursor:
  assumes "4 < value_size type_id count"
    and "get_value e tiff_start type_id count value_offset f = (Inr data, f')"
  shows "pos f' = pos f \<and> content f' = content f \<and>
         data = take (value_size type_id count)
                  (drop (tiff_start + bytes_nat e value_offset) (content f)) \<and>
         trace f' = trace f @ [OpSeek (tiff_start + bytes_nat e value_offset),
                               OpRead (value_size type_id count), OpSeek (pos f)]"
proof -
  from unpack_I_cases [of value_offset e] show ?thesis
  proof
    assume a: "length value_offset = 4 \<and> unpack_I e value_offset = Inr (bytes_nat e value_offset)"
    show ?thesis
    proof (cases "served (value_size type_id count) f")
      case True
      show ?thesis
        using assms(2) get_value_deref [OF assms(1) conjunct2 [OF a] True, of tiff_start]
        by auto
    next
      case False
      show ?thesis
        using assms(2) get_value_no_memory [OF assms(1) conjunct2 [OF a] False, of tiff_start]
        by simp
    qed
  next
    assume a: "length value_offset \<noteq> 4 \<and> unpack_I e value_offset = Inl StructError"
    show ?thesis
      using assms(2) get_value_raise [OF assms(1) conjunct2 [OF a], of tiff_start f] by simp
  qed
qed

theorem get_value_restores_cursor_witness:
  "4 < value_size 5 1 \<and>
   get_value Big 1 5 1 [0, 0, 0, 2]
       \<lparr>content = [10, 11, 12, 13, 14, 15, 16, 17, 18, 19, 20, 21], pos = 7, trace = [], avail = 64\<rparr>
     = (Inr [13, 14, 15, 16, 17, 18, 19, 20],
        \<lparr>content = [10, 11, 12, 13, 14, 15, 16, 17, 18, 19, 20, 21], pos = 7,
          trace = [OpSeek 3, OpRead 8, OpSeek 7], avail = 64\<rparr>) \<and>
   pos \<lparr>content = [10, 11, 12, 13, 14, 15, 16, 17, 18, 19, 20, 21 :: byte], pos = 7,
          trace = [OpSeek 3, OpRead 8, OpSeek 7], avail = 64\<rparr>
     = pos \<lparr>content = [10, 11, 12, 13, 14, 15, 16, 17, 18, 19, 20, 21 :: byte], pos = 7,
          trace = [], avail = 64\<rparr>"
proof -
  have s: "4 < value_size 5 1"
    by (simp add: value_size_def type_size_def type_sizes_def)
  have u: "unpack_I Big [0, 0, 0, 2] = Inr 2"
    by (simp add: unpack_I_def bytes_nat_def)
  have g: "get_value Big 1 5 1 [0, 0, 0, 2]
       \<lparr>content = [10, 11, 12, 13, 14, 15, 16, 17, 18, 19, 20, 21], pos = 7, trace = [], avail = 64\<rparr>
     = (Inr [13, 14, 15, 16, 17, 18, 19, 20],
        \<lparr>content = [10, 11, 12, 13, 14, 15, 16, 17, 18, 19, 20, 21], pos = 7,
          trace = [OpSeek 3, OpRead 8, OpSeek 7], avail = 64\<rparr>)"
    using get_value_deref [OF s u, of
        "\<lparr>content = [10, 11, 12, 13, 14, 15, 16, 17, 18, 19, 20, 21], pos = 7, trace = [],
           avail = 64\<rparr>" 1]
    by (simp add: value_size_def type_size_def type_sizes_def served_def)
  have p: "pos \<lparr>content = [10, 11, 12, 13, 14, 15, 16, 17, 18, 19, 20, 21 :: byte], pos = 7,
          trace = [OpSeek 3, OpRead 8, OpSeek 7], avail = 64\<rparr>
     = pos \<lparr>content = [10, 11, 12, 13, 14, 15, 16, 17, 18, 19, 20, 21 :: byte], pos = 7,
          trace = [], avail = 64\<rparr>"
    using get_value_restores_cursor [OF s g] by (rule conjunct1)
  from s g p show ?thesis by (intro conjI)
qed

subsection \<open>Rationals and coordinates\<close>

lemma read_rational_present:
  assumes "offset + 8 \<le> length data"
  shows "read_rational e data offset =
     Inr (if bytes_nat e (slice data (offset + 4) (offset + 8)) = 0 then 0
          else real (bytes_nat e (slice data offset (offset + 4))) /
               real (bytes_nat e (slice data (offset + 4) (offset + 8))))"
  using assms by (simp add: read_rational_def unpack_I_def slice_def py_truediv_def)

lemma read_rational_no_zero_division:
  "read_rational e data offset \<noteq> Inl ZeroDivisionError"
  by (simp add: read_rational_def unpack_I_def py_truediv_def split: sum.splits)



lemma read_gps_coord_24:
  assumes "length data = 24"
  shows "\<exists>d m s. read_rational e data 0 = Inr d \<and> read_rational e data 8 = Inr m \<and>
           read_rational e data 16 = Inr s \<and>
           read_gps_coord e data = Inr (d + m / 60 + s / 3600)"
proof -
  have 0: "0 + 8 \<le> length data" and 8: "8 + 8 \<le> length data" and 16: "16 + 8 \<le> length data"
    using assms by simp_all
  show ?thesis
    using read_rational_present [OF 0, of e] read_rational_present [OF 8, of e]
      read_rational_present [OF 16, of e]
    by (simp add: read_gps_coord_def)
qed


text \<open>
  \<^bold>\<open>C4.\<close> \<^verbatim>\<open>read_rational\<close> never raises \<^verbatim>\<open>ZeroDivisionError\<close>, whatever the buffer and
  the offset. Where the buffer holds the 8 bytes at the offset, the two 32-bit unsigned
  integers are decoded in the byte order of the context, numerator first, and the result
  is their quotient, or 0 when the denominator is 0. A rational with denominator 0 in a
  24-byte coordinate value (here the minutes) contributes 0 to the coordinate.
\<close>

theorem read_rational_zero_denominator:
  "read_rational e data offset \<noteq> Inl ZeroDivisionError \<and>
   (offset + 8 \<le> length data \<longrightarrow>
      unpack_I e (slice data offset (offset + 4)) =
        Inr (bytes_nat e (slice data offset (offset + 4))) \<and>
      unpack_I e (slice data (offset + 4) (offset + 8)) =
        Inr (bytes_nat e (slice data (offset + 4) (offset + 8))) \<and>
      read_rational e data offset =
        Inr (if bytes_nat e (slice data (offset + 4) (offset + 8)) = 0 then 0
             else real (bytes_nat e (slice data offset (offset + 4))) /
                  real (bytes_nat e (slice data (offset + 4) (offset + 8))))) \<and>
   (length data = 24 \<and> bytes_nat e (slice data 12 16) = 0 \<longrightarrow>
      (\<exists>d s. read_rational e data 0 = Inr d \<and> read_rational e data 16 = Inr s \<and>
             read_gps_coord e data = Inr (d + 0 / 60 + s / 3600)))"
proof (intro conjI impI)
  show "read_rational e data offset \<noteq> Inl ZeroDivisionError"
    by (rule read_rational_no_zero_division)
next
  assume "offset + 8 \<le> length data"
  then show "unpack_I e (slice data offset (offset + 4)) =
      Inr (bytes_nat e (slice data offset (offset + 4)))"
    by (simp add: unpack_I_def slice_def)
next
  assume "offset + 8 \<le> length data"
  then show "unpack_I e (slice data (offset + 4) (offset + 8)) =
        Inr (bytes_nat e (slice data (offset + 4) (offset + 8)))"
    by (simp add: unpack_I_def slice_def)
next
  assume "offset + 8 \<le> length data"
  then show "read_rational e data offset =
        Inr (if bytes_nat e (slice data (offset + 4) (offset + 8)) = 0 then 0
             else real (bytes_nat e (slice data offset (offset + 4))) /
                  real (bytes_nat e (slice data (offset + 4) (offset + 8))))"
    by (rule read_rational_present)
next
  assume a: "length data = 24 \<and> bytes_nat e (slice data 12 16) = 0"
  then have 8: "8 + 8 \<le> length data" by simp
  from a read_rational_present [OF 8, of e] have m: "read_rational e data 8 = Inr 0" by simp
  from a read_gps_coord_24 [of data e] obtain d m' s where
    r: "read_rational e data 0 = Inr d" "read_rational e data 8 = Inr m'"
       "read_rational e data 16 = Inr s" "read_gps_coord e data = Inr (d + m' / 60 + s / 3600)"
    by blast
  from r(2) m have "m' = 0" by simp
  with r show "\<exists>d s. read_rational e data 0 = Inr d \<and> read_rational e data 16 = Inr s \<and>
             read_gps_coord e data = Inr (d + 0 / 60 + s / 3600)"
    by simp
qed

lemma coord_ex_length: "length coord_ex = 24" by (simp add: coord_ex_def)
lemma coord_ex_den: "bytes_nat Big (slice coord_ex 12 16) = 0" by (simp add: coord_ex_def slice_def bytes_nat_def)
lemma coord_ex_minutes: "read_rational Big coord_ex 8 = Inr 0"
  by (simp add: read_rational_def coord_ex_def slice_def unpack_I_def bytes_nat_def py_truediv_def)
lemma coord_ex_degrees: "read_rational Big coord_ex 0 = Inr 40"
  by (simp add: read_rational_def coord_ex_def slice_def unpack_I_def bytes_nat_def py_truediv_def)
lemma coord_ex_seconds: "read_rational Big coord_ex 16 = Inr 23"
  by (simp add: read_rational_def coord_ex_def slice_def unpack_I_def bytes_nat_def py_truediv_def)
lemma coord_ex_coord: "read_gps_coord Big coord_ex = Inr (40 + 0 / 60 + 23 / 3600)"
  by (simp add: read_gps_coord_def coord_ex_minutes coord_ex_degrees coord_ex_seconds)

theorem read_rational_zero_denominator_witness:
  "8 + 8 \<le> length coord_ex \<and> length coord_ex = 24 \<and> bytes_nat Big (slice coord_ex 12 16) = 0 \<and>
   read_rational Big coord_ex 8 = Inr 0 \<and> read_rational Big coord_ex 8 \<noteq> Inl ZeroDivisionError \<and>
   read_gps_coord Big coord_ex = Inr (40 + 0 / 60 + 23 / 3600)"
proof -
  have l: "8 + 8 \<le> length coord_ex" by (simp add: coord_ex_length)
  have z: "read_rational Big coord_ex 8 \<noteq> Inl ZeroDivisionError"
    using read_rational_zero_denominator [of Big coord_ex 8] by (rule conjunct1)
  from l coord_ex_length coord_ex_den coord_ex_minutes z coord_ex_coord show ?thesis by (intro conjI)
qed

subsection \<open>Files that are not JPEG, paths that are not \<^verbatim>\<open>.jpg\<close>\<close>

text \<open>
  \<^bold>\<open>C8.\<close> When the first two bytes of the file are not \<open>0xFF 0xD8\<close> (also when the file
  has fewer than two bytes), the decoder returns \<open>None\<close> and the only operation on the
  file has been the read of these two bytes.
\<close>

theorem no_soi_reads_two_bytes:
  assumes "fs filepath = Some bs" and "take 2 bs \<noteq> [0xFF, 0xD8]"
  shows "read_jpeg_exif_gps_body (open_file mem bs) =
           (Inr None,
            \<lparr>content = bs, pos = length (take 2 bs), trace = [OpRead 2], avail = mem\<rparr>) \<and>
         read_jpeg_exif_gps mem fs filepath = (None, [EvOpen filepath, EvFile (OpRead 2)])"
  using assms
  by (simp add: read_jpeg_exif_gps_def read_jpeg_exif_gps_body_def tiff_header_def
      open_file_def f_read_def served_def Let_def)

theorem no_soi_reads_two_bytes_witness:
  "one_file ''a.jpg'' [0x89, 0x50, 0x4E, 0x47] ''a.jpg'' = Some [0x89, 0x50, 0x4E, 0x47] \<and>
   take 2 [0x89, 0x50, 0x4E, 0x47] \<noteq> [0xFF, 0xD8 :: byte] \<and>
   read_jpeg_exif_gps 4096 (one_file ''a.jpg'' [0x89, 0x50, 0x4E, 0x47]) ''a.jpg'' =
     (None, [EvOpen ''a.jpg'', EvFile (OpRead 2)]) \<and>
   one_file ''b.jpg'' [0xFF] ''b.jpg'' = Some [0xFF] \<and>
   take 2 [0xFF] \<noteq> [0xFF, 0xD8 :: byte] \<and>
   read_jpeg_exif_gps 0 (one_file ''b.jpg'' [0xFF]) ''b.jpg'' =
     (None, [EvOpen ''b.jpg'', EvFile (OpRead 2)])"
proof -
  have a1: "one_file ''a.jpg'' [0x89, 0x50, 0x4E, 0x47] ''a.jpg'' = Some [0x89, 0x50, 0x4E, 0x47]"
    by (simp add: one_file_def)
  have a2: "take 2 [0x89, 0x50, 0x4E, 0x47] \<noteq> [0xFF, 0xD8 :: byte]" by simp
  have b1: "one_file ''b.jpg'' [0xFF] ''b.jpg'' = Some [0xFF]"
    by (simp add: one_file_def)
  have b2: "take 2 [0xFF] \<noteq> [0xFF, 0xD8 :: byte]" by simp
  from a1 a2
    conjunct2 [OF no_soi_reads_two_bytes
      [of "one_file ''a.jpg'' [0x89, 0x50, 0x4E, 0x47]" "''a.jpg''" "[0x89, 0x50, 0x4E, 0x47]",
       OF a1 a2, of 4096]]
    b1 b2
    conjunct2 [OF no_soi_reads_two_bytes
      [of "one_file ''b.jpg'' [0xFF]" "''b.jpg''" "[0xFF]", OF b1 b2, of 0]]
  show ?thesis by (intro conjI)
qed

lemma takeWhile_rev_suffix:
  "c \<notin> set t \<Longrightarrow> takeWhile (\<lambda>x. x \<noteq> c) (rev t @ c # ys) = rev t"
  by (induction t rule: rev_induct) auto

lemma rfind_suffix:
  assumes "c \<notin> set t"
  shows "rfind (s @ c # t) c = int (length s)"
  using takeWhile_rev_suffix [OF assms, of "rev s"] by (simp add: rfind_def)

lemma splitext_loop_Some:
  "splitext_loop p extsep i d = Some r \<Longrightarrow> r = (take d p, drop d p)"
proof (induction p extsep i d rule: splitext_loop.induct)
  case (1 p extsep filenameIndex dotIndex)
  then show ?case
    by (subst (asm) (2) splitext_loop.simps) (auto split: if_splits)
qed

lemma splitext_ext:
  "snd (splitext os p) = [] \<or> snd (splitext os p) = drop (nat (rfind p CHR ''.'')) p"
  by (auto simp: splitext_def splitext_generic_def Let_def
      split: os_name.splits option.splits dest: splitext_loop_Some)

lemma splitext_suffix:
  assumes "CHR ''.'' \<notin> set t"
  shows "snd (splitext os (s @ CHR ''.'' # t)) = [] \<or>
         snd (splitext os (s @ CHR ''.'' # t)) = CHR ''.'' # t"
  using splitext_ext [of os "s @ CHR ''.'' # t"] rfind_suffix [OF assms, of s]
  by simp

lemma lower_png: "lower ''.png'' = ''.png''"
  by (simp add: lower_def lower_char_def)

lemma lower_heic: "lower ''.heic'' = ''.heic''"
  by (simp add: lower_def lower_char_def)

lemma lower_Nil: "lower [] = []"
  by (simp add: lower_def)

lemma get_gps_png: "get_gps_coordinates os mem fs (stem @ ''.png'') = (None, [])"
  using splitext_suffix [of "''png''" os stem]
  by (auto simp: get_gps_coordinates_def Let_def lower_png lower_Nil)

lemma get_gps_heic: "get_gps_coordinates os mem fs (stem @ ''.heic'') = (None, [])"
  using splitext_suffix [of "''heic''" os stem]
  by (auto simp: get_gps_coordinates_def Let_def lower_heic lower_Nil)

text \<open>
  \<^bold>\<open>C7.\<close> When the lower-cased extension of the path, as \<^verbatim>\<open>os.path.splitext\<close> gives it,
  is neither \<^verbatim>\<open>.jpg\<close> nor \<^verbatim>\<open>.jpeg\<close>, the result is \<open>None\<close> and nothing has been opened
  or read; this is the case of every path that ends in \<^verbatim>\<open>.png\<close> or in \<^verbatim>\<open>.heic\<close>, on POSIX
  and on Windows.
\<close>

theorem unsupported_extension:
  "(lower (snd (splitext os filepath)) \<notin> set [''.jpg'', ''.jpeg''] \<longrightarrow>
      get_gps_coordinates os mem fs filepath = (None, [])) \<and>
   get_gps_coordinates os mem fs (stem @ ''.png'') = (None, []) \<and>
   get_gps_coordinates os mem fs (stem @ ''.heic'') = (None, [])"
  by (simp add: get_gps_png get_gps_heic) (simp add: get_gps_coordinates_def)

theorem unsupported_extension_witness:
  "lower (snd (splitext Nt ''pics/shot.PNG'')) \<notin> set [''.jpg'', ''.jpeg''] \<and>
   get_gps_coordinates Nt 4096 (one_file ''pics/shot.PNG'' []) ''pics/shot.PNG'' = (None, [])"
proof -
  have h: "lower (snd (splitext Nt ''pics/shot.PNG'')) \<notin> set [''.jpg'', ''.jpeg'']"
    by code_simp
  from h conjunct1 [OF unsupported_extension
      [of Nt "''pics/shot.PNG''" 4096 "one_file ''pics/shot.PNG'' []"], THEN mp, OF h]
  show ?thesis by (intro conjI)
qed

subsection \<open>The pipeline\<close>






lemma take1_eq: "take 1 xs = [a] \<longleftrightarrow> (\<exists>ys. xs = a # ys)"
  by (cases xs) auto


lemma gps_coords_missing:
  "entries 0x0002 = None \<or> entries 0x0004 = None \<Longrightarrow>
   gps_coords e ts entries f = (Inr None, f)"
  by (auto simp: gps_coords_def split: option.splits)



lemma body_from_ifd0:
  assumes "tiff_header (open_file mem bs) = (Inr (Some (e, ts, off)), f1)"
    and "read_ifd_entries e ts off f1 = (Inr ifd0, f2)"
  shows "read_jpeg_exif_gps_body (open_file mem bs) = gps_from_ifd0 e ts ifd0 f2"
  using assms by (simp add: read_jpeg_exif_gps_body_def)

lemma read_jpeg_exif_gps_of_body:
  assumes "fs filepath = Some bs" and "read_jpeg_exif_gps_body (open_file mem bs) = (Inr r, f)"
  shows "read_jpeg_exif_gps mem fs filepath = (r, EvOpen filepath # map EvFile (trace f))"
  using assms by (simp add: read_jpeg_exif_gps_def)

text \<open>
  \<^bold>\<open>C3.\<close> Once IFD0 is parsed, the result is \<open>None\<close> when IFD0 has no tag \<open>0x8825\<close>; and
  once the GPS IFD is parsed, the result is \<open>None\<close> when it lacks tag \<open>0x0002\<close> or tag
  \<open>0x0004\<close>. In both cases the decoder returns right after the parse of that directory.
\<close>

theorem missing_tag_returns_None:
  assumes "fs filepath = Some bs"
    and "tiff_header (open_file mem bs) = (Inr (Some (e, tiff_start, ifd_offset)), f1)"
    and "read_ifd_entries e tiff_start ifd_offset f1 = (Inr ifd0, f2)"
  shows "(ifd0 0x8825 = None \<longrightarrow>
            read_jpeg_exif_gps mem fs filepath = (None, EvOpen filepath # map EvFile (trace f2))) \<and>
         (\<forall>type_id count value_offset gps_offset gps_ifd f3.
            ifd0 0x8825 = Some (type_id, count, value_offset) \<and>
            unpack_I e value_offset = Inr gps_offset \<and>
            read_ifd_entries e tiff_start gps_offset f2 = (Inr gps_ifd, f3) \<and>
            (gps_ifd 0x0002 = None \<or> gps_ifd 0x0004 = None) \<longrightarrow>
            read_jpeg_exif_gps mem fs filepath = (None, EvOpen filepath # map EvFile (trace f3)))"
proof (intro conjI allI impI)
  assume "ifd0 0x8825 = None"
  then have "read_jpeg_exif_gps_body (open_file mem bs) = (Inr None, f2)"
    by (simp add: body_from_ifd0 [OF assms(2,3)] gps_from_ifd0_def)
  then show "read_jpeg_exif_gps mem fs filepath = (None, EvOpen filepath # map EvFile (trace f2))"
    by (rule read_jpeg_exif_gps_of_body [of fs filepath bs, OF assms(1)])
next
  fix type_id count value_offset gps_offset gps_ifd f3
  assume a: "ifd0 0x8825 = Some (type_id, count, value_offset) \<and>
            unpack_I e value_offset = Inr gps_offset \<and>
            read_ifd_entries e tiff_start gps_offset f2 = (Inr gps_ifd, f3) \<and>
            (gps_ifd 0x0002 = None \<or> gps_ifd 0x0004 = None)"
  then have "gps_coords e tiff_start gps_ifd f3 = (Inr None, f3)"
    by (simp add: gps_coords_missing)
  with a have "read_jpeg_exif_gps_body (open_file mem bs) = (Inr None, f3)"
    by (simp add: body_from_ifd0 [OF assms(2,3)] gps_from_ifd0_def)
  then show "read_jpeg_exif_gps mem fs filepath = (None, EvOpen filepath # map EvFile (trace f3))"
    by (rule read_jpeg_exif_gps_of_body [of fs filepath bs, OF assms(1)])
qed






subsection \<open>A complete decode\<close>








subsection \<open>Concrete runs\<close>






















lemma size_5_3: "value_size 5 3 = 24"
  by (simp add: value_size_def type_size_def type_sizes_def)














lemma sample_gps_offset: "unpack_I Big [0x00, 0x00, 0x00, 0x1A] = Inr 26"
  by (simp add: unpack_I_def bytes_nat_def)
















lemma no_pointer_header:
  "tiff_header (open_file 4096 file_no_pointer) =
     (Inr (Some (Big, 12, 8)),
      \<lparr>content = file_no_pointer, pos = 20,
        trace = [OpRead 2, OpRead 2, OpRead 2, OpRead 6, OpRead 8], avail = 4096\<rparr>)"
  by (simp add: file_no_pointer_def tiff_header_def open_file_def f_read_def served_def
      f_tell_def Let_def scan_app1.simps scan_step_def unpack_H_def unpack_I_def
      bytes_nat_def slice_def)

lemma no_pointer_ifd0:
  "read_ifd_entries Big 12 8
     \<lparr>content = file_no_pointer, pos = 20,
       trace = [OpRead 2, OpRead 2, OpRead 2, OpRead 6, OpRead 8], avail = 4096\<rparr> =
     (Inr Map.empty,
      \<lparr>content = file_no_pointer, pos = 22,
        trace = [OpRead 2, OpRead 2, OpRead 2, OpRead 6, OpRead 8, OpSeek 20, OpRead 2],
        avail = 4096\<rparr>)"
  by (simp add: file_no_pointer_def f_read_def served_def Let_def f_seek_def unpack_H_def
      bytes_nat_def read_ifd_entries_def)

lemma no_longitude_header:
  "tiff_header (open_file 4096 file_no_longitude) =
     (Inr (Some (Big, 12, 8)),
      \<lparr>content = file_no_longitude, pos = 20,
        trace = [OpRead 2, OpRead 2, OpRead 2, OpRead 6, OpRead 8], avail = 4096\<rparr>)"
  by (simp add: file_no_longitude_def tiff_header_def open_file_def f_read_def served_def
      f_tell_def Let_def scan_app1.simps scan_step_def unpack_H_def unpack_I_def
      bytes_nat_def slice_def)

lemma no_longitude_ifd0:
  "read_ifd_entries Big 12 8
     \<lparr>content = file_no_longitude, pos = 20,
       trace = [OpRead 2, OpRead 2, OpRead 2, OpRead 6, OpRead 8], avail = 4096\<rparr> =
     (Inr [0x8825 \<mapsto> (4, 1, [0x00, 0x00, 0x00, 0x1A])],
      \<lparr>content = file_no_longitude, pos = 34,
        trace = [OpRead 2, OpRead 2, OpRead 2, OpRead 6, OpRead 8, OpSeek 20, OpRead 2,
                 OpRead 2, OpRead 2, OpRead 4, OpRead 4], avail = 4096\<rparr>)"
  by (simp add: file_no_longitude_def f_read_def served_def Let_def f_seek_def unpack_H_def
      unpack_I_def bytes_nat_def read_ifd_entries_def)

lemma no_longitude_gps_ifd:
  "read_ifd_entries Big 12 26
     \<lparr>content = file_no_longitude, pos = 34,
        trace = [OpRead 2, OpRead 2, OpRead 2, OpRead 6, OpRead 8, OpSeek 20, OpRead 2,
                 OpRead 2, OpRead 2, OpRead 4, OpRead 4], avail = 4096\<rparr> =
     (Inr [0x0002 \<mapsto> (5, 3, [0x00, 0x00, 0x00, 0x00])],
      \<lparr>content = file_no_longitude, pos = 52,
        trace = [OpRead 2, OpRead 2, OpRead 2, OpRead 6, OpRead 8, OpSeek 20, OpRead 2,
                 OpRead 2, OpRead 2, OpRead 4, OpRead 4, OpSeek 38, OpRead 2,
                 OpRead 2, OpRead 2, OpRead 4, OpRead 4], avail = 4096\<rparr>)"
  by (simp add: file_no_longitude_def f_read_def served_def Let_def f_seek_def unpack_H_def
      unpack_I_def bytes_nat_def read_ifd_entries_def)

theorem missing_tag_returns_None_witness:
  "fst (read_jpeg_exif_gps 4096 (one_file ''a.jpg'' file_no_pointer) ''a.jpg'') = None \<and>
   snd (read_jpeg_exif_gps 4096 (one_file ''a.jpg'' file_no_pointer) ''a.jpg'') =
     EvOpen ''a.jpg'' #
     map EvFile [OpRead 2, OpRead 2, OpRead 2, OpRead 6, OpRead 8, OpSeek 20, OpRead 2] \<and>
   fst (read_jpeg_exif_gps 4096 (one_file ''b.jpg'' file_no_longitude) ''b.jpg'') = None"
proof -
  have a1: "one_file ''a.jpg'' file_no_pointer ''a.jpg'' = Some file_no_pointer"
    by (simp add: one_file_def)
  have b1: "one_file ''b.jpg'' file_no_longitude ''b.jpg'' = Some file_no_longitude"
    by (simp add: one_file_def)
  have a4: "(Map.empty :: ifd) 0x8825 = None" by simp
  have b4: "([0x8825 \<mapsto> (4, 1, [0x00, 0x00, 0x00, 0x1A])] :: ifd) 0x8825 =
      Some (4, 1, [0x00, 0x00, 0x00, 0x1A])" by simp
  have b5: "unpack_I Big [0x00, 0x00, 0x00, 0x1A] = Inr 26"
    by (simp add: unpack_I_def bytes_nat_def)
  have b7: "([0x0002 \<mapsto> (5, 3, [0x00, 0x00, 0x00, 0x00])] :: ifd) 0x0002 = None \<or>
            ([0x0002 \<mapsto> (5, 3, [0x00, 0x00, 0x00, 0x00])] :: ifd) 0x0004 = None" by simp
  note A = missing_tag_returns_None
    [of "one_file ''a.jpg'' file_no_pointer" "''a.jpg''" file_no_pointer,
     OF a1 no_pointer_header no_pointer_ifd0]
  note B = missing_tag_returns_None
    [of "one_file ''b.jpg'' file_no_longitude" "''b.jpg''" file_no_longitude,
     OF b1 no_longitude_header no_longitude_ifd0]
  from A a4 have ra: "read_jpeg_exif_gps 4096 (one_file ''a.jpg'' file_no_pointer) ''a.jpg'' =
      (None, EvOpen ''a.jpg'' # map EvFile (trace
        \<lparr>content = file_no_pointer, pos = 22,
          trace = [OpRead 2, OpRead 2, OpRead 2, OpRead 6, OpRead 8, OpSeek 20, OpRead 2],
          avail = 4096\<rparr>))"
    by blast
  from B b4 b5 no_longitude_gps_ifd b7
  have rb: "fst (read_jpeg_exif_gps 4096 (one_file ''b.jpg'' file_no_longitude) ''b.jpg'') = None"
    by (metis fst_conv)
  from ra rb show ?thesis by simp
qed



subsection \<open>The resolver at the end of the file\<close>

lemma past_end_header:
  "tiff_header (open_file 4096 file_past_end) =
     (Inr (Some (Big, 12, 8)),
      \<lparr>content = file_past_end, pos = 20,
        trace = [OpRead 2, OpRead 2, OpRead 2, OpRead 6, OpRead 8], avail = 4096\<rparr>)"
  by (simp add: file_past_end_def tiff_header_def open_file_def f_read_def served_def
      f_tell_def Let_def scan_app1.simps scan_step_def unpack_H_def unpack_I_def
      bytes_nat_def slice_def)

lemma past_end_ifd0:
  "read_ifd_entries Big 12 8
     \<lparr>content = file_past_end, pos = 20,
       trace = [OpRead 2, OpRead 2, OpRead 2, OpRead 6, OpRead 8], avail = 4096\<rparr> =
     (Inr [0x8825 \<mapsto> (4, 1, [0x00, 0x00, 0x00, 0x1A])],
      \<lparr>content = file_past_end, pos = 34,
        trace = [OpRead 2, OpRead 2, OpRead 2, OpRead 6, OpRead 8, OpSeek 20, OpRead 2,
                 OpRead 2, OpRead 2, OpRead 4, OpRead 4], avail = 4096\<rparr>)"
  by (simp add: file_past_end_def f_read_def served_def Let_def f_seek_def unpack_H_def
      unpack_I_def bytes_nat_def read_ifd_entries_def)

lemma read_entries_2:
  "read_entries e 2 entries f = read_entries e (Suc (Suc 0)) entries f"
  by (simp add: numeral_2_eq_2)

lemma past_end_gps_ifd:
  "read_ifd_entries Big 12 26
     \<lparr>content = file_past_end, pos = 34,
        trace = [OpRead 2, OpRead 2, OpRead 2, OpRead 6, OpRead 8, OpSeek 20, OpRead 2,
                 OpRead 2, OpRead 2, OpRead 4, OpRead 4], avail = 4096\<rparr> =
     (Inr [0x0002 \<mapsto> (5, 3, [0x00, 0x00, 0x03, 0xE8]),
           0x0004 \<mapsto> (5, 3, [0x00, 0x00, 0x07, 0xD0])],
      past_end_state)"
  by (simp add: past_end_state_def file_past_end_def f_read_def served_def Let_def f_seek_def
      unpack_H_def unpack_I_def bytes_nat_def read_ifd_entries_def read_entries_2)

lemma past_end_length: "length file_past_end = 68"
  by (simp add: file_past_end_def)

lemma past_end_offset: "bytes_nat Big [0x00, 0x00, 0x03, 0xE8] = 1000"
  by (simp add: bytes_nat_def)

lemma past_end_get_value:
  "get_value Big 12 5 3 [0x00, 0x00, 0x03, 0xE8] past_end_state =
     (Inr [],
      past_end_state\<lparr>trace := trace past_end_state @ [OpSeek 1012, OpRead 24, OpSeek 64]\<rparr>)"
  by (simp add: get_value_def size_5_3 unpack_I_def past_end_offset f_tell_def f_seek_def
      f_read_def served_def Let_def past_end_state_def past_end_length)

lemma empty_coord: "read_gps_coord Big [] = Inl StructError"
  by (simp add: read_gps_coord_def read_rational_def slice_def unpack_I_def)

lemma past_end_coords:
  "gps_coords Big 12
     [0x0002 \<mapsto> (5, 3, [0x00, 0x00, 0x03, 0xE8]), 0x0004 \<mapsto> (5, 3, [0x00, 0x00, 0x07, 0xD0])]
     past_end_state =
     (Inl StructError,
      past_end_state\<lparr>trace := trace past_end_state @ [OpSeek 1012, OpRead 24, OpSeek 64]\<rparr>)"
  by (simp add: gps_coords_def past_end_get_value empty_coord)

lemma past_end_body:
  "read_jpeg_exif_gps_body (open_file 4096 file_past_end) =
     (Inl StructError,
      past_end_state\<lparr>trace := trace past_end_state @ [OpSeek 1012, OpRead 24, OpSeek 64]\<rparr>)"
  by (simp add: read_jpeg_exif_gps_body_def gps_from_ifd0_def past_end_header past_end_ifd0
      sample_gps_offset past_end_gps_ifd past_end_coords)

lemma past_end_run:
  "read_jpeg_exif_gps 4096 (one_file ''a.jpg'' file_past_end) ''a.jpg'' =
     (None,
      EvOpen ''a.jpg'' #
      map EvFile (trace past_end_state @ [OpSeek 1012, OpRead 24, OpSeek 64]))"
  by (simp add: read_jpeg_exif_gps_def one_file_def past_end_body)

text \<open>
  \<^bold>\<open>C6\<close>, as the specification states it, does not hold: for an entry of more than 4 bytes
  whose region extends past the end of the file, the resolver does not fail. In the decode
  of the 68-byte file above, the resolver is called for the latitude (type 5, count 3, so
  24 bytes, at \<^verbatim>\<open>tiff_start\<close> 12 and offset 1000) in the state reached after the parse of the
  GPS IFD. It returns the empty buffer and seeks back; the log of the whole decode ends
  with that seek, because the decode of the empty buffer then raises \<^verbatim>\<open>struct.error\<close>.
\<close>

theorem get_value_past_end_counterexample:
  "4 < value_size 5 3 \<and>
   length (content past_end_state) <
     12 + bytes_nat Big [0x00, 0x00, 0x03, 0xE8] + value_size 5 3 \<and>
   get_value Big 12 5 3 [0x00, 0x00, 0x03, 0xE8] past_end_state =
     (Inr [],
      past_end_state\<lparr>trace := trace past_end_state @ [OpSeek 1012, OpRead 24, OpSeek 64]\<rparr>) \<and>
   read_jpeg_exif_gps 4096 (one_file ''a.jpg'' file_past_end) ''a.jpg'' =
     (None,
      EvOpen ''a.jpg'' #
      map EvFile (trace past_end_state @ [OpSeek 1012, OpRead 24, OpSeek 64]))"
proof (intro conjI)
  show "4 < value_size 5 3" by (simp add: size_5_3)
  show "length (content past_end_state) <
     12 + bytes_nat Big [0x00, 0x00, 0x03, 0xE8] + value_size 5 3"
    by (simp add: size_5_3 past_end_offset past_end_state_def past_end_length)
  show "get_value Big 12 5 3 [0x00, 0x00, 0x03, 0xE8] past_end_state =
     (Inr [],
      past_end_state\<lparr>trace := trace past_end_state @ [OpSeek 1012, OpRead 24, OpSeek 64]\<rparr>)"
    by (rule past_end_get_value)
  show "read_jpeg_exif_gps 4096 (one_file ''a.jpg'' file_past_end) ''a.jpg'' =
     (None,
      EvOpen ''a.jpg'' #
      map EvFile (trace past_end_state @ [OpSeek 1012, OpRead 24, OpSeek 64]))"
    by (rule past_end_run)
qed

text \<open>
  \<^bold>\<open>C6, amended.\<close> For an entry of more than 4 bytes whose value field holds its 4 bytes,
  the outcome of the resolver does not depend on where the region of \<open>size\<close> bytes at
  \<^verbatim>\<open>tiff_start + offset\<close> lies. When the buffer of \<open>size\<close> bytes can be allocated, the
  resolver returns the bytes of the file that lie in the region: \<open>size\<close> bytes when the
  region lies within the file, and fewer (possibly none) when it extends past the end. When
  the buffer cannot be allocated, \<^verbatim>\<open>MemoryError\<close> is raised; with a count of up to
  \<open>2\<^sup>3\<^sup>2 - 1\<close> the size can reach \<open>8 * (2\<^sup>3\<^sup>2 - 1)\<close> bytes.
\<close>

theorem get_value_short_read:
  assumes "4 < value_size type_id count" and "length value_offset = 4"
  shows "fst (get_value e tiff_start type_id count value_offset f) =
           (if served (value_size type_id count) f
            then Inr (take (value_size type_id count)
                        (drop (tiff_start + bytes_nat e value_offset) (content f)))
            else Inl MemoryError) \<and>
         length (take (value_size type_id count)
                   (drop (tiff_start + bytes_nat e value_offset) (content f))) =
           min (value_size type_id count)
               (length (content f) - (tiff_start + bytes_nat e value_offset))"
proof -
  have u: "unpack_I e value_offset = Inr (bytes_nat e value_offset)"
    using assms(2) by (simp add: unpack_I_def)
  show ?thesis
  proof (cases "served (value_size type_id count) f")
    case True
    then show ?thesis
      using get_value_deref [OF assms(1) u True, of tiff_start]
      by (simp add: min.commute)
  next
    case False
    then show ?thesis
      using get_value_no_memory [OF assms(1) u False, of tiff_start]
      by (simp add: min.commute)
  qed
qed

lemma size_5_max: "value_size 5 0xFFFFFFFF = 34359738360"
  by (simp add: value_size_def type_size_def type_sizes_def)

theorem get_value_short_read_witness:
  "4 < value_size 5 3 \<and> length [0x00, 0x00, 0x00, 0x32 :: byte] = 4 \<and>
   served (value_size 5 3) past_end_state \<and>
   fst (get_value Big 12 5 3 [0x00, 0x00, 0x00, 0x32] past_end_state) =
     Inr [0x07, 0xD0, 0x00, 0x00, 0x00, 0x00] \<and>
   4 < value_size 5 0xFFFFFFFF \<and>
   \<not> served (value_size 5 0xFFFFFFFF) past_end_state \<and>
   fst (get_value Big 12 5 0xFFFFFFFF [0x00, 0x00, 0x00, 0x32] past_end_state) =
     Inl MemoryError"
proof -
  have s: "4 < value_size 5 3" by (simp add: size_5_3)
  have l: "length [0x00, 0x00, 0x00, 0x32 :: byte] = 4" by simp
  have v: "served (value_size 5 3) past_end_state = True"
    by (simp add: served_def size_5_3 past_end_state_def)
  have d: "take (value_size 5 3)
             (drop (12 + bytes_nat Big [0x00, 0x00, 0x00, 0x32]) (content past_end_state)) =
           [0x07, 0xD0, 0x00, 0x00, 0x00, 0x00]"
    by (simp add: size_5_3 bytes_nat_def past_end_state_def file_past_end_def)
  have r: "fst (get_value Big 12 5 3 [0x00, 0x00, 0x00, 0x32] past_end_state) =
     Inr [0x07, 0xD0, 0x00, 0x00, 0x00, 0x00]"
    by (simp only: conjunct1 [OF get_value_short_read [OF s l, of Big 12 past_end_state]]
        v d if_True)
  have s': "4 < value_size 5 0xFFFFFFFF" by (simp add: size_5_max)
  have v': "served (value_size 5 0xFFFFFFFF) past_end_state = False"
    by (simp add: served_def size_5_max past_end_state_def)
  have r': "fst (get_value Big 12 5 0xFFFFFFFF [0x00, 0x00, 0x00, 0x32] past_end_state) =
     Inl MemoryError"
    by (simp only: conjunct1 [OF get_value_short_read [OF s' l, of Big 12 past_end_state]]
        v' if_False)
  from v have v1: "served (value_size 5 3) past_end_state" by simp
  from v' have v2: "\<not> served (value_size 5 0xFFFFFFFF) past_end_state" by simp
  from s l v1 r s' v2 r' show ?thesis by (intro conjI)
qed

end
